theory Spec2Isabelle
  imports Main
begin

section \<open>Data model of \<open>token_auto_update_client.go\<close>\<close>

text \<open>
  \<open>time.Duration\<close> is an \<open>int64\<close> count of nanoseconds. Durations are modelled as
  \<open>int\<close>, and every operation of the source that can leave the 64-bit range is followed
  by \<open>wrap64\<close>, Go's two's-complement wrap-around. Go's \<open>int\<close> (the failure counter)
  is taken at its 64-bit width. \<open>time.Time\<close> is modelled as an unbounded count of
  nanoseconds; \<open>Time.Sub\<close> saturates at the smallest and largest \<open>Duration\<close>, as the
  standard library does.
\<close>

type_synonym duration = int
type_synonym time = int

definition wrap64 :: "int \<Rightarrow> int" where
  "wrap64 x = (x + 2 ^ 63) mod 2 ^ 64 - 2 ^ 63"

definition minDuration :: duration where
  "minDuration = - (2 ^ 63)"

definition maxDuration :: duration where
  "maxDuration = 2 ^ 63 - 1"

definition Sub :: "time \<Rightarrow> time \<Rightarrow> duration" where
  "Sub t u = (if t - u < minDuration then minDuration
              else if maxDuration < t - u then maxDuration
              else t - u)"

definition Second :: duration where
  "Second = 1000000000"

definition Minute :: duration where
  "Minute = 60 * Second"

definition Hour :: duration where
  "Hour = 60 * Minute"

text \<open>Go's integer division truncates towards zero.\<close>

definition quo :: "int \<Rightarrow> int \<Rightarrow> int" where
  "quo a b = (if (a < 0) = (b < 0) then \<bar>a\<bar> div \<bar>b\<bar> else - (\<bar>a\<bar> div \<bar>b\<bar>))"

definition mul64 :: "int \<Rightarrow> int \<Rightarrow> int" where
  "mul64 a b = wrap64 (a * b)"

text \<open>
  Errors are values. \<open>errSTSFetchHighFrequency\<close> is the package-level sentinel of the
  source; every other error is carried by its message. \<open>IsTokenError\<close> is not defined in
  this file of the repository: the functions that use it take it as the parameter
  \<open>isTokenError\<close>.
\<close>

datatype error = errSTSFetchHighFrequency | Error string

text \<open>
  The struct \<open>TokenAutoUpdateClient\<close>. The collaborators \<open>logClient\<close>, \<open>shutdown\<close> and
  \<open>tokenUpdateFunc\<close> are not fields of the model: what they return is an input of the
  function that calls them, and every call made to them is recorded in a trace of events.
  The mutex is not modelled: each function below is one sequential execution.
\<close>

record client =
  closeFlag :: bool
  maxTryTimes :: int
  waitIntervalMin :: duration
  waitIntervalMax :: duration
  updateTokenIntervalMin :: duration
  nextExpire :: time
  lastFetch :: time
  lastRetryFailCount :: int
  lastRetryInterval :: duration

text \<open>
  The five results of \<open>tokenUpdateFunc\<close>: access key id, access key secret, security
  token, expiry, error (\<open>None\<close> is \<open>nil\<close>).
\<close>

type_synonym token_result = "string \<times> string \<times> string \<times> time \<times> error option"

datatype event =
    OpCall
  | FetchCall
  | Sleep duration
  | After duration
  | TokenUpdateCall
  | ResetAccessKeyToken string string string

section \<open>\<open>fetchSTSToken\<close>\<close>

text \<open>
  The first critical section of \<open>fetchSTSToken\<close> (lines 77 to 95): the debounce check
  and the backoff. It returns \<open>skip\<close>, \<open>sleepTime\<close> and the updated client.
\<close>

definition fetch_prepare :: "client \<Rightarrow> time \<Rightarrow> bool \<times> duration \<times> client" where
  "fetch_prepare c nowTime =
     (if Sub nowTime (lastFetch c) < updateTokenIntervalMin c then (True, 0, c)
      else
        let c1 = c\<lparr>lastFetch := nowTime\<rparr> in
        if lastRetryFailCount c1 = 0 then (False, 0, c1)
        else
          let c2 = c1\<lparr>lastRetryInterval := mul64 (lastRetryInterval c1) 2\<rparr>;
              c3 = (if lastRetryInterval c2 < waitIntervalMin c2
                    then c2\<lparr>lastRetryInterval := waitIntervalMin c2\<rparr> else c2);
              c4 = (if lastRetryInterval c3 \<ge> waitIntervalMax c3
                    then c3\<lparr>lastRetryInterval := waitIntervalMax c3\<rparr> else c3)
          in (False, lastRetryInterval c4, c4))"

text \<open>
  \<open>fetchSTSToken c nowTime tok\<close>: \<open>nowTime\<close> is what \<open>time.Now()\<close> returns, \<open>tok\<close> what
  \<open>tokenUpdateFunc\<close> returns if it is called. The result is the returned error, the
  client afterwards and the calls made to the outside, in order.
\<close>

definition fetchSTSToken :: "client \<Rightarrow> time \<Rightarrow> token_result \<Rightarrow> error option \<times> client \<times> event list" where
  "fetchSTSToken c nowTime tok =
     (case fetch_prepare c nowTime of (skip, sleepTime, c1) \<Rightarrow>
        if skip then (Some errSTSFetchHighFrequency, c1, [])
        else
          let slept = (if sleepTime > 0 then [Sleep sleepTime] else []) in
          case tok of (accessKeyID, accessKeySecret, securityToken, expireTime, err) \<Rightarrow>
            (case err of
               None \<Rightarrow>
                 (None,
                  c1\<lparr>lastRetryFailCount := 0, lastRetryInterval := 0, nextExpire := expireTime\<rparr>,
                  slept @ [TokenUpdateCall,
                           ResetAccessKeyToken accessKeyID accessKeySecret securityToken])
             | Some e \<Rightarrow>
                 (Some e,
                  c1\<lparr>lastRetryFailCount := wrap64 (lastRetryFailCount c1 + 1)\<rparr>,
                  slept @ [TokenUpdateCall])))"

text \<open>
  A run of fetch calls, one after the other: each element is the clock reading and the
  answer of \<open>tokenUpdateFunc\<close> for one call of \<open>fetchSTSToken\<close>.
\<close>

fun fetch_seq :: "client \<Rightarrow> (time \<times> token_result) list \<Rightarrow> client" where
  "fetch_seq c [] = c"
| "fetch_seq c ((nowTime, tok) # rest) =
     fetch_seq (fst (snd (fetchSTSToken c nowTime tok))) rest"

section \<open>\<open>processError\<close> and the decorated operations\<close>

text \<open>
  \<open>processError\<close> answers whether the operation is to be retried. \<open>nowTime\<close> and \<open>tok\<close>
  are the inputs of the fetch it may perform.
\<close>

definition processError ::
  "(error \<Rightarrow> bool) \<Rightarrow> client \<Rightarrow> time \<Rightarrow> token_result \<Rightarrow> error option
     \<Rightarrow> bool \<times> client \<times> event list" where
  "processError isTokenError c nowTime tok err =
     (case err of
        None \<Rightarrow> (False, c, [])
      | Some e \<Rightarrow>
          if isTokenError e then
            (case fetchSTSToken c nowTime tok of (fetchErr, c', tr) \<Rightarrow>
               if fetchErr \<noteq> None then (False, c', FetchCall # tr)
               else (True, c', FetchCall # tr))
          else (False, c, []))"

text \<open>
  \<open>CreateProject\<close>, the first of the 192 decorated operations that have this body, each
  around its own call of the underlying client. \<open>maxTryTimes\<close> and the loop counter \<open>i\<close>
  are Go \<open>int\<close>s; \<open>i\<close> stays below \<open>maxTryTimes\<close>, so \<open>i++\<close> does not overflow.
  \<open>logClient_CreateProject k name description\<close> is what the underlying client
  returns at its invocation number \<open>k\<close> (counted from 0): a \<open>*LogProject\<close> (\<open>None\<close> is
  the nil pointer) and an error. \<open>env k\<close> is the clock reading and the answer of
  \<open>tokenUpdateFunc\<close> for the fetch of iteration \<open>k\<close>. The loop carries the named results
  \<open>prj\<close> and \<open>err\<close>, which start at their zero values.
\<close>

function CreateProject_loop ::
  "(error \<Rightarrow> bool) \<Rightarrow> (nat \<Rightarrow> string \<Rightarrow> string \<Rightarrow> 'p option \<times> error option)
     \<Rightarrow> (nat \<Rightarrow> time \<times> token_result) \<Rightarrow> string \<Rightarrow> string
     \<Rightarrow> client \<Rightarrow> int \<Rightarrow> 'p option \<Rightarrow> error option
     \<Rightarrow> 'p option \<times> error option \<times> client \<times> event list" where
  "CreateProject_loop isTokenError logClient_CreateProject env name description c i prj err =
     (if i < maxTryTimes c then
        (case logClient_CreateProject (nat i) name description of (prj', err') \<Rightarrow>
           (case processError isTokenError c (fst (env (nat i))) (snd (env (nat i))) err' of
              (retry, c', tr) \<Rightarrow>
                if \<not> retry then (prj', err', c', OpCall # tr)
                else
                  (case CreateProject_loop isTokenError logClient_CreateProject env
                          name description c' (i + 1) prj' err' of
                     (p, e, cf, tr') \<Rightarrow> (p, e, cf, OpCall # tr @ tr'))))
      else (prj, err, c, []))"
  by pat_completeness auto
termination
proof (relation "measure (\<lambda>(isTokenError, logClient_CreateProject, env, name, description,
                            c, i, prj, err). nat (maxTryTimes c - i))")
  show "wf (measure (\<lambda>(isTokenError, logClient_CreateProject, env, name, description,
                       c, i, prj, err). nat (maxTryTimes c - i)))"
    by simp
next
  fix isTokenError :: "error \<Rightarrow> bool"
    and logClient_CreateProject :: "nat \<Rightarrow> string \<Rightarrow> string \<Rightarrow> 'p option \<times> error option"
    and env :: "nat \<Rightarrow> time \<times> token_result"
    and name description :: string and c c' :: client and i :: int
    and prj prj' :: "'p option" and err err' :: "error option"
    and retry :: bool and z :: "client \<times> event list" and tr :: "event list"
  assume lt: "i < maxTryTimes c"
    and "(prj', err') = logClient_CreateProject (nat i) name description"
    and y: "(retry, z) =
            processError isTokenError c (fst (env (nat i))) (snd (env (nat i))) err'"
    and z: "(c', tr) = z"
    and "\<not> \<not> retry"
  have p: "maxTryTimes (snd (snd (fetch_prepare c t))) = maxTryTimes c" for t
    by (simp add: fetch_prepare_def Let_def)
  have f: "maxTryTimes (fst (snd (fetchSTSToken c t k))) = maxTryTimes c" for t k
    using p [of t]
    by (cases "fetch_prepare c t")
       (auto simp: fetchSTSToken_def Let_def split: prod.splits option.splits)
  have "maxTryTimes (fst (snd (processError isTokenError c t k e))) = maxTryTimes c" for t k e
    using f [of t k]
    by (cases "fetchSTSToken c t k")
       (auto simp: processError_def split: option.splits)
  with y z have "maxTryTimes c' = maxTryTimes c"
    by (metis fst_conv snd_conv)
  with lt
  show "((isTokenError, logClient_CreateProject, env, name, description, c', i + 1, prj', err'),
         (isTokenError, logClient_CreateProject, env, name, description, c, i, prj, err))
        \<in> measure (\<lambda>(isTokenError, logClient_CreateProject, env, name, description,
                        c, i, prj, err). nat (maxTryTimes c - i))"
    by simp
qed

definition CreateProject ::
  "(error \<Rightarrow> bool) \<Rightarrow> (nat \<Rightarrow> string \<Rightarrow> string \<Rightarrow> 'p option \<times> error option)
     \<Rightarrow> (nat \<Rightarrow> time \<times> token_result) \<Rightarrow> client \<Rightarrow> string \<Rightarrow> string
     \<Rightarrow> 'p option \<times> error option \<times> client \<times> event list" where
  "CreateProject isTokenError logClient_CreateProject env c name description =
     CreateProject_loop isTokenError logClient_CreateProject env name description c 0 None None"

text \<open>
  \<open>PublishAlertEvent\<close> (lines 2013 to 2022) is the one decorated operation whose loop is
  written differently: it does not call \<open>processError\<close>, and leaves the loop only when
  the underlying operation returns nil or the tries are used up. \<open>logClient_PublishAlertEvent k project alertResult\<close>
  is what the underlying client returns at its invocation number \<open>k\<close>; the byte slice
  \<open>alertResult\<close> is a list of characters. The client is read and never written.
\<close>

function PublishAlertEvent_loop ::
  "(nat \<Rightarrow> string \<Rightarrow> string \<Rightarrow> error option) \<Rightarrow> string \<Rightarrow> string
     \<Rightarrow> client \<Rightarrow> int \<Rightarrow> error option \<Rightarrow> error option \<times> event list" where
  "PublishAlertEvent_loop logClient_PublishAlertEvent project alertResult c i err =
     (if i < maxTryTimes c then
        (case logClient_PublishAlertEvent (nat i) project alertResult of
           None \<Rightarrow> (None, [OpCall])
         | Some e \<Rightarrow>
             (case PublishAlertEvent_loop logClient_PublishAlertEvent project alertResult
                     c (i + 1) (Some e) of
                (r, tr) \<Rightarrow> (r, OpCall # tr)))
      else (err, []))"
  by pat_completeness auto
termination
  by (relation "measure (\<lambda>(logClient_PublishAlertEvent, project, alertResult, c, i, err).
                            nat (maxTryTimes c - i))") auto

definition PublishAlertEvent ::
  "(nat \<Rightarrow> string \<Rightarrow> string \<Rightarrow> error option) \<Rightarrow> client \<Rightarrow> string \<Rightarrow> string
     \<Rightarrow> error option \<times> event list" where
  "PublishAlertEvent logClient_PublishAlertEvent c project alertResult =
     PublishAlertEvent_loop logClient_PublishAlertEvent project alertResult c 0 None"

section \<open>\<open>Close\<close> and \<open>flushSTSToken\<close>\<close>

definition Close :: "client \<Rightarrow> error option \<times> client" where
  "Close c = (None, c\<lparr>closeFlag := True\<rparr>)"

text \<open>
  The interval computed at the top of each iteration of \<open>flushSTSToken\<close>
  (lines 33 to 45). \<open>time.Second * 30\<close> and \<open>time.Minute * 10\<close> are constant expressions;
  \<open>sleepTime / 10 * 7\<close> is computed at run time, on \<open>int64\<close>.
\<close>

definition flush_sleepTime :: "client \<Rightarrow> time \<Rightarrow> duration" where
  "flush_sleepTime c nowTime =
     (let sleepTime = Sub (nextExpire c) nowTime in
      if sleepTime < Minute then Second * 30
      else if sleepTime < Minute * 10 then mul64 (quo sleepTime 10) 7
      else if sleepTime < Hour then mul64 (quo sleepTime 10) 6
      else mul64 (quo sleepTime 10) 5)"

text \<open>
  What the \<open>select\<close> of one iteration receives. \<open>Trigger fetchNow tok closed\<close>: the timer
  fired; \<open>fetchNow\<close> and \<open>tok\<close> are the inputs of the fetch that follows, and \<open>closed\<close>
  says that \<open>Close\<close> was called by another goroutine before the flag is read at line 63.
  \<open>Shutdown\<close>: the shutdown channel delivered.
\<close>

datatype wake = Trigger time token_result bool | Shutdown

datatype status = Running | Returned

text \<open>
  The loop of \<open>flushSTSToken\<close>, run on the list of what its iterations receive: the clock
  reading at the top of the iteration and the outcome of the \<open>select\<close>. The loop has no
  exit condition of its own; \<open>Running\<close> is the answer when every given iteration has
  been run and the loop is at the top of the next one, \<open>Returned\<close> when the function
  has returned.
\<close>

fun flushSTSToken :: "client \<Rightarrow> (time \<times> wake) list \<Rightarrow> status \<times> client \<times> event list" where
  "flushSTSToken c [] = (Running, c, [])"
| "flushSTSToken c ((nowTime, w) # rest) =
     (let sleepTime = flush_sleepTime c nowTime in
      case w of
        Shutdown \<Rightarrow> (Returned, c, [After sleepTime])
      | Trigger fetchNow tok closed \<Rightarrow>
          (case fetchSTSToken c fetchNow tok of (err, c1, tr) \<Rightarrow>
             let c2 = (if closed then snd (Close c1) else c1) in
             if closeFlag c2 then (Returned, c2, After sleepTime # FetchCall # tr)
             else
               (case flushSTSToken c2 rest of
                  (st, cf, tr') \<Rightarrow> (st, cf, After sleepTime # FetchCall # tr @ tr'))))"

text \<open>The outcomes of a \<open>select\<close> after which the loop returns whatever the fetch did.\<close>

fun stops :: "wake \<Rightarrow> bool" where
  "stops Shutdown = True"
| "stops (Trigger fetchNow tok closed) = closed"

section \<open>Example inputs\<close>

text \<open>
  A client with a backoff between one second and one minute, a debounce window of ten
  seconds, three tries, and the counters at zero.
\<close>

definition client_example :: client where
  "client_example =
     \<lparr>closeFlag = False, maxTryTimes = 3,
      waitIntervalMin = Second, waitIntervalMax = 60 * Second,
      updateTokenIntervalMin = 10 * Second,
      nextExpire = 0, lastFetch = 0,
      lastRetryFailCount = 0, lastRetryInterval = 0\<rparr>"

definition token_ok :: "time \<Rightarrow> token_result" where
  "token_ok expireTime = (''id'', ''secret'', ''token'', expireTime, None)"

definition token_failed :: token_result where
  "token_failed = ([], [], [], 0, Some (Error ''sts unavailable''))"

definition client_failing :: client where
  "client_failing = client_example\<lparr>lastRetryFailCount := 2, lastRetryInterval := Second\<rparr>"

text \<open>
  A classification of errors, three behaviours of the underlying operation (the project is
  a string here) and three environments of the fetches made by a decorated operation.
\<close>

definition isAuthError :: "error \<Rightarrow> bool" where
  "isAuthError e = (e = Error ''Unauthorized'')"

definition op_two_auth_errors :: "nat \<Rightarrow> string \<Rightarrow> string \<Rightarrow> string option \<times> error option" where
  "op_two_auth_errors k name description =
     (if k < 2 then (None, Some (Error ''Unauthorized'')) else (Some name, None))"

definition op_always_auth_error :: "nat \<Rightarrow> string \<Rightarrow> string \<Rightarrow> string option \<times> error option" where
  "op_always_auth_error k name description = (None, Some (Error ''Unauthorized''))"

definition op_not_found :: "nat \<Rightarrow> string \<Rightarrow> string \<Rightarrow> string option \<times> error option" where
  "op_not_found k name description = (None, Some (Error ''ProjectNotExist''))"

definition alert_not_found :: "nat \<Rightarrow> string \<Rightarrow> string \<Rightarrow> error option" where
  "alert_not_found k project alertResult = Some (Error ''ProjectNotExist'')"

definition env_spaced :: "nat \<Rightarrow> time \<times> token_result" where
  "env_spaced k = (100 * Second + int k * (100 * Second), token_ok (4000 * Second))"

definition env_failing :: "nat \<Rightarrow> time \<times> token_result" where
  "env_failing k = (100 * Second + int k * (100 * Second), token_failed)"

definition env_hurried :: "nat \<Rightarrow> time \<times> token_result" where
  "env_hurried k = (5 * Second, token_ok (4000 * Second))"

text \<open>
  Two iterations of the scheduler in which the timer fires and the fetch fails.
\<close>

definition two_failed_cycles :: "(time \<times> wake) list" where
  "two_failed_cycles =
     [(100 * Second, Trigger (130 * Second) token_failed False),
      (130 * Second, Trigger (160 * Second) token_failed False)]"

text \<open>
  The value of \<open>lastRetryInterval\<close> at the end of the first critical section of
  \<open>fetchSTSToken\<close> when the debounce check lets the call through (lines 82 to 93 in one
  expression).
\<close>

definition backoff_next :: "client \<Rightarrow> duration" where
  "backoff_next c =
     (if lastRetryFailCount c = 0 then lastRetryInterval c
      else min (waitIntervalMax c) (max (waitIntervalMin c) (wrap64 (lastRetryInterval c * 2))))"

section \<open>The three outcomes of \<open>fetchSTSToken\<close>\<close>

lemma wrap64_id: "- (2 ^ 63) \<le> x \<Longrightarrow> x < 2 ^ 63 \<Longrightarrow> wrap64 x = x"
  by (simp add: wrap64_def)

lemma fetch_prepare_skip:
  "Sub nowTime (lastFetch c) < updateTokenIntervalMin c \<Longrightarrow> fetch_prepare c nowTime = (True, 0, c)"
  by (simp add: fetch_prepare_def)

lemma fetch_prepare_pass:
  "\<not> Sub nowTime (lastFetch c) < updateTokenIntervalMin c \<Longrightarrow>
   fetch_prepare c nowTime =
     (False, (if lastRetryFailCount c = 0 then 0 else backoff_next c),
      c\<lparr>lastFetch := nowTime, lastRetryInterval := backoff_next c\<rparr>)"
  by (simp add: fetch_prepare_def Let_def mul64_def min_def max_def backoff_next_def)

lemma fetchSTSToken_skip:
  "Sub nowTime (lastFetch c) < updateTokenIntervalMin c \<Longrightarrow>
   fetchSTSToken c nowTime tok = (Some errSTSFetchHighFrequency, c, [])"
  by (simp add: fetchSTSToken_def fetch_prepare_skip)

lemma fetchSTSToken_success:
  "\<not> Sub nowTime (lastFetch c) < updateTokenIntervalMin c \<Longrightarrow>
   fetchSTSToken c nowTime (a, s, t, expireTime, None) =
     (None,
      c\<lparr>lastFetch := nowTime, lastRetryInterval := 0, lastRetryFailCount := 0,
        nextExpire := expireTime\<rparr>,
      (if lastRetryFailCount c \<noteq> 0 \<and> 0 < backoff_next c then [Sleep (backoff_next c)] else [])
        @ [TokenUpdateCall, ResetAccessKeyToken a s t])"
  by (simp add: fetchSTSToken_def fetch_prepare_pass)

lemma fetchSTSToken_failure:
  "\<not> Sub nowTime (lastFetch c) < updateTokenIntervalMin c \<Longrightarrow>
   fetchSTSToken c nowTime (a, s, t, expireTime, Some e) =
     (Some e,
      c\<lparr>lastFetch := nowTime, lastRetryInterval := backoff_next c,
        lastRetryFailCount := wrap64 (lastRetryFailCount c + 1)\<rparr>,
      (if lastRetryFailCount c \<noteq> 0 \<and> 0 < backoff_next c then [Sleep (backoff_next c)] else [])
        @ [TokenUpdateCall])"
  by (simp add: fetchSTSToken_def fetch_prepare_pass)

lemmas eval_defs = fetchSTSToken_def fetch_prepare_def client_example_def token_ok_def
  token_failed_def Sub_def Second_def Minute_def Hour_def minDuration_def maxDuration_def
  wrap64_def mul64_def Let_def isAuthError_def op_two_auth_errors_def
  op_always_auth_error_def op_not_found_def alert_not_found_def env_spaced_def
  env_failing_def env_hurried_def

section \<open>Backoff and failure counter\<close>

text \<open>
  C1, amended. A call of \<open>fetchSTSToken\<close> that passes the debounce check and succeeds
  sets \<open>lastRetryFailCount\<close> and \<open>lastRetryInterval\<close> to 0. One that passes the check
  and fails increments \<open>lastRetryFailCount\<close>; if the counter was 0 before the call,
  \<open>lastRetryInterval\<close> is left as it was; if the counter was not 0, \<open>lastRetryInterval\<close>
  is the doubled previous value (doubled on \<open>int64\<close>) raised to \<open>waitIntervalMin\<close> and capped
  at \<open>waitIntervalMax\<close>, which is the clamp of twice the previous value whenever the
  doubling does not overflow.
\<close>

theorem backoff_after_fetch:
  assumes "\<not> Sub nowTime (lastFetch c) < updateTokenIntervalMin c"
    and "fetchSTSToken c nowTime tok = (r, c', tr)"
  shows "(r = None \<longrightarrow> lastRetryFailCount c' = 0 \<and> lastRetryInterval c' = 0) \<and>
         (r \<noteq> None \<longrightarrow> lastRetryFailCount c' = wrap64 (lastRetryFailCount c + 1)) \<and>
         (r \<noteq> None \<and> lastRetryFailCount c = 0 \<longrightarrow> lastRetryInterval c' = lastRetryInterval c) \<and>
         (r \<noteq> None \<and> lastRetryFailCount c \<noteq> 0 \<longrightarrow>
            lastRetryInterval c' =
              min (waitIntervalMax c) (max (waitIntervalMin c) (wrap64 (lastRetryInterval c * 2)))) \<and>
         (r \<noteq> None \<and> lastRetryFailCount c \<noteq> 0 \<and>
          - (2 ^ 62) \<le> lastRetryInterval c \<and> lastRetryInterval c < 2 ^ 62 \<longrightarrow>
            lastRetryInterval c' =
              min (waitIntervalMax c) (max (waitIntervalMin c) (lastRetryInterval c * 2)))"
proof -
  obtain a s t expireTime err where tok: "tok = (a, s, t, expireTime, err)"
    by (cases tok) auto
  have w: "- (2 ^ 62) \<le> lastRetryInterval c \<and> lastRetryInterval c < 2 ^ 62 \<Longrightarrow>
           wrap64 (lastRetryInterval c * 2) = lastRetryInterval c * 2"
    by (rule wrap64_id) auto
  show ?thesis
  proof (cases err)
    case None
    with assms tok show ?thesis
      by (auto simp: fetchSTSToken_success)
  next
    case (Some e)
    with assms tok w show ?thesis
      by (auto simp: fetchSTSToken_failure backoff_next_def)
  qed
qed

theorem backoff_after_fetch_witness:
  "\<not> Sub (100 * Second) (lastFetch client_failing) < updateTokenIntervalMin client_failing \<and>
   fst (fetchSTSToken client_failing (100 * Second) token_failed) \<noteq> None \<and>
   lastRetryFailCount client_failing \<noteq> 0 \<and>
   lastRetryFailCount (fst (snd (fetchSTSToken client_failing (100 * Second) token_failed))) = 3 \<and>
   lastRetryInterval (fst (snd (fetchSTSToken client_failing (100 * Second) token_failed))) = 2 * Second"
proof -
  have h: "\<not> Sub (100 * Second) (lastFetch client_failing) < updateTokenIntervalMin client_failing"
    by (simp add: eval_defs client_failing_def)
  have e: "fetchSTSToken client_failing (100 * Second) token_failed =
           (fst (fetchSTSToken client_failing (100 * Second) token_failed),
            fst (snd (fetchSTSToken client_failing (100 * Second) token_failed)),
            snd (snd (fetchSTSToken client_failing (100 * Second) token_failed)))"
    by simp
  have n: "fst (fetchSTSToken client_failing (100 * Second) token_failed) \<noteq> None"
    by (simp add: eval_defs client_failing_def)
  show ?thesis
    using backoff_after_fetch [OF h e] h n
    by (simp add: client_failing_def client_example_def Second_def wrap64_def)
qed

text \<open>
  The first failure after a success: the counter goes from 0 to 1 and the interval stays
  at 0, which is not the clamp of twice the previous interval (one second here).
\<close>

theorem backoff_first_failure_counterexample:
  "fst (fetchSTSToken client_example (100 * Second) token_failed) \<noteq> None \<and>
   lastRetryFailCount (fst (snd (fetchSTSToken client_example (100 * Second) token_failed)))
     = lastRetryFailCount client_example + 1 \<and>
   lastRetryInterval (fst (snd (fetchSTSToken client_example (100 * Second) token_failed)))
     \<noteq> min (waitIntervalMax client_example)
           (max (waitIntervalMin client_example) (lastRetryInterval client_example * 2))"
  by (simp add: eval_defs)


section \<open>The counters along a run of fetches\<close>

lemma fetch_step_counters:
  assumes "0 \<le> lastRetryFailCount c" and "lastRetryFailCount c \<le> n" and "n + 1 < 2 ^ 63"
    and "lastRetryFailCount c = 0 \<longrightarrow> lastRetryInterval c = 0"
  shows "0 \<le> lastRetryFailCount (fst (snd (fetchSTSToken c nowTime tok))) \<and>
         lastRetryFailCount (fst (snd (fetchSTSToken c nowTime tok))) \<le> n + 1 \<and>
         (lastRetryFailCount (fst (snd (fetchSTSToken c nowTime tok))) = 0 \<longrightarrow>
          lastRetryInterval (fst (snd (fetchSTSToken c nowTime tok))) = 0)"
proof (cases "Sub nowTime (lastFetch c) < updateTokenIntervalMin c")
  case True
  with assms show ?thesis
    by (simp add: fetchSTSToken_skip)
next
  case False
  obtain a s t expireTime err where tok: "tok = (a, s, t, expireTime, err)"
    by (cases tok) auto
  have w: "wrap64 (lastRetryFailCount c + 1) = lastRetryFailCount c + 1"
    using assms by (intro wrap64_id) auto
  show ?thesis
  proof (cases err)
    case None
    with False tok assms show ?thesis
      by (simp add: fetchSTSToken_success)
  next
    case (Some e)
    with False tok w assms show ?thesis
      by (simp add: fetchSTSToken_failure)
  qed
qed

lemma fetch_seq_counters:
  "0 \<le> lastRetryFailCount c \<Longrightarrow> lastRetryFailCount c \<le> n \<Longrightarrow>
   n + int (length ins) < 2 ^ 63 \<Longrightarrow>
   (lastRetryFailCount c = 0 \<longrightarrow> lastRetryInterval c = 0) \<Longrightarrow>
   0 \<le> lastRetryFailCount (fetch_seq c ins) \<and>
   lastRetryFailCount (fetch_seq c ins) \<le> n + int (length ins) \<and>
   (lastRetryFailCount (fetch_seq c ins) = 0 \<longrightarrow> lastRetryInterval (fetch_seq c ins) = 0)"
proof (induction ins arbitrary: c n)
  case Nil
  then show ?case by simp
next
  case (Cons x rest)
  obtain nowTime tok where x: "x = (nowTime, tok)"
    by (cases x) auto
  let ?c = "fst (snd (fetchSTSToken c nowTime tok))"
  from Cons.prems have "n + 1 < 2 ^ 63"
    by simp
  with Cons.prems
  have step: "0 \<le> lastRetryFailCount ?c \<and> lastRetryFailCount ?c \<le> n + 1 \<and>
              (lastRetryFailCount ?c = 0 \<longrightarrow> lastRetryInterval ?c = 0)"
    by (intro fetch_step_counters) auto
  from Cons.prems have "(n + 1) + int (length rest) < 2 ^ 63"
    by simp
  with step Cons.IH [of ?c "n + 1"] x show ?case
    by (simp add: add.assoc)
qed

text \<open>
  C2, amended. Starting from a client whose \<open>lastRetryFailCount\<close> and \<open>lastRetryInterval\<close>
  are 0, after any run of fewer than \<open>2 ^ 63\<close> calls of \<open>fetchSTSToken\<close> (successful,
  failed or skipped): if \<open>lastRetryFailCount\<close> is 0 then \<open>lastRetryInterval\<close> is 0.
  The converse does not hold: after a first failure the counter is 1 and the interval
  is still 0.
\<close>

theorem no_failures_no_backoff:
  assumes "lastRetryFailCount c = 0" and "lastRetryInterval c = 0"
    and "int (length ins) < 2 ^ 63"
  shows "lastRetryFailCount (fetch_seq c ins) = 0 \<longrightarrow> lastRetryInterval (fetch_seq c ins) = 0"
  using fetch_seq_counters [of c 0 ins] assms by simp

theorem no_failures_no_backoff_witness:
  "lastRetryFailCount client_example = 0 \<and> lastRetryInterval client_example = 0 \<and>
   lastRetryFailCount
     (fetch_seq client_example
        [(100 * Second, token_failed), (200 * Second, token_failed),
         (300 * Second, token_ok (4000 * Second))]) = 0 \<and>
   lastRetryInterval
     (fetch_seq client_example
        [(100 * Second, token_failed), (200 * Second, token_failed),
         (300 * Second, token_ok (4000 * Second))]) = 0"
proof -
  have c: "lastRetryFailCount client_example = 0" and b: "lastRetryInterval client_example = 0"
    by (simp_all add: client_example_def)
  have z: "lastRetryFailCount
     (fetch_seq client_example
        [(100 * Second, token_failed), (200 * Second, token_failed),
         (300 * Second, token_ok (4000 * Second))]) = 0"
    by (simp add: eval_defs)
  show ?thesis
    using no_failures_no_backoff [OF c b, of "[(100 * Second, token_failed),
      (200 * Second, token_failed), (300 * Second, token_ok (4000 * Second))]"] c b z
    by simp
qed

text \<open>
  After one failed fetch from the zeroed state the counter is 1 and the interval is 0.
\<close>

theorem backoff_iff_counterexample:
  "\<not> (lastRetryFailCount (fetch_seq client_example [(100 * Second, token_failed)]) = 0 \<longleftrightarrow>
      lastRetryInterval (fetch_seq client_example [(100 * Second, token_failed)]) = 0)"
  by (simp add: eval_defs)

section \<open>The stored expiry\<close>

text \<open>
  C3, amended. A call of \<open>fetchSTSToken\<close> that returns no error sets \<open>nextExpire\<close> to
  the expiry returned by \<open>tokenUpdateFunc\<close>; a call that returns an error (a failure or
  a skip) leaves \<open>nextExpire\<close> as it was. So \<open>nextExpire\<close> does not decrease when
  \<open>tokenUpdateFunc\<close> returns an expiry that is not earlier than the stored one.
\<close>

theorem nextExpire_after_fetch:
  assumes "fetchSTSToken c nowTime (accessKeyID, accessKeySecret, securityToken, expireTime, err)
           = (r, c', tr)"
  shows "(r = None \<longrightarrow> nextExpire c' = expireTime) \<and>
         (r \<noteq> None \<longrightarrow> nextExpire c' = nextExpire c) \<and>
         (nextExpire c \<le> expireTime \<longrightarrow> nextExpire c \<le> nextExpire c')"
  using assms
  by (cases "Sub nowTime (lastFetch c) < updateTokenIntervalMin c"; cases err)
     (auto simp: fetchSTSToken_skip fetchSTSToken_success fetchSTSToken_failure)

theorem nextExpire_after_fetch_witness:
  "fst (fetchSTSToken (client_example\<lparr>nextExpire := 50 * Second\<rparr>) (100 * Second)
          (''id'', ''secret'', ''token'', 4000 * Second, None)) = None \<and>
   nextExpire (fst (snd (fetchSTSToken (client_example\<lparr>nextExpire := 50 * Second\<rparr>) (100 * Second)
          (''id'', ''secret'', ''token'', 4000 * Second, None)))) = 4000 * Second \<and>
   nextExpire (client_example\<lparr>nextExpire := 50 * Second\<rparr>) \<le> 4000 * Second"
proof -
  have e: "fetchSTSToken (client_example\<lparr>nextExpire := 50 * Second\<rparr>) (100 * Second)
             (''id'', ''secret'', ''token'', 4000 * Second, None) =
           (fst (fetchSTSToken (client_example\<lparr>nextExpire := 50 * Second\<rparr>) (100 * Second)
                   (''id'', ''secret'', ''token'', 4000 * Second, None)),
            fst (snd (fetchSTSToken (client_example\<lparr>nextExpire := 50 * Second\<rparr>) (100 * Second)
                   (''id'', ''secret'', ''token'', 4000 * Second, None))),
            snd (snd (fetchSTSToken (client_example\<lparr>nextExpire := 50 * Second\<rparr>) (100 * Second)
                   (''id'', ''secret'', ''token'', 4000 * Second, None))))"
    by simp
  have n: "fst (fetchSTSToken (client_example\<lparr>nextExpire := 50 * Second\<rparr>) (100 * Second)
                   (''id'', ''secret'', ''token'', 4000 * Second, None)) = None"
    by (simp add: eval_defs)
  show ?thesis
    using nextExpire_after_fetch [OF e] n
    by (simp add: Second_def)
qed

text \<open>
  A successful fetch whose \<open>tokenUpdateFunc\<close> returns an expiry of 200 seconds, while the
  stored expiry is 500 seconds, moves \<open>nextExpire\<close> backwards.
\<close>

theorem nextExpire_decreases_counterexample:
  "fst (fetchSTSToken (client_example\<lparr>nextExpire := 500 * Second\<rparr>) (100 * Second)
          (token_ok (200 * Second))) = None \<and>
   nextExpire (fst (snd (fetchSTSToken (client_example\<lparr>nextExpire := 500 * Second\<rparr>)
          (100 * Second) (token_ok (200 * Second)))))
     < nextExpire (client_example\<lparr>nextExpire := 500 * Second\<rparr>)"
  by (simp add: eval_defs)


section \<open>The debounce window\<close>

text \<open>
  C4, amended. If a call of \<open>fetchSTSToken\<close> at \<open>t1\<close> passes the debounce check (it is
  not itself skipped), then a call at \<open>t2\<close>, with \<open>t1 \<le> t2\<close> and \<open>t2 - t1\<close> less than
  \<open>updateTokenIntervalMin\<close>, returns \<open>errSTSFetchHighFrequency\<close>, calls neither
  \<open>tokenUpdateFunc\<close> nor \<open>ResetAccessKeyToken\<close> and leaves every field of the client
  as it was.
\<close>

theorem second_fetch_debounced:
  assumes "\<not> Sub t1 (lastFetch c) < updateTokenIntervalMin c"
    and "fetchSTSToken c t1 tok1 = (r1, c1, tr1)"
    and "t1 \<le> t2" and "t2 - t1 < updateTokenIntervalMin c"
  shows "fetchSTSToken c1 t2 tok2 = (Some errSTSFetchHighFrequency, c1, [])"
proof -
  obtain a s t expireTime err where tok: "tok1 = (a, s, t, expireTime, err)"
    by (cases tok1) auto
  from assms tok have c1: "lastFetch c1 = t1 \<and> updateTokenIntervalMin c1 = updateTokenIntervalMin c"
    by (cases err) (auto simp: fetchSTSToken_success fetchSTSToken_failure)
  from assms(3,4) have "Sub t2 t1 < updateTokenIntervalMin c"
    by (simp add: Sub_def minDuration_def maxDuration_def)
  with c1 show ?thesis
    by (simp add: fetchSTSToken_skip)
qed

theorem second_fetch_debounced_witness:
  "\<not> Sub (100 * Second) (lastFetch client_example) < updateTokenIntervalMin client_example \<and>
   100 * Second \<le> 103 * Second \<and>
   103 * Second - 100 * Second < updateTokenIntervalMin client_example \<and>
   fetchSTSToken (fst (snd (fetchSTSToken client_example (100 * Second) token_failed)))
     (103 * Second) (token_ok (4000 * Second)) =
   (Some errSTSFetchHighFrequency,
    fst (snd (fetchSTSToken client_example (100 * Second) token_failed)), [])"
proof -
  have h: "\<not> Sub (100 * Second) (lastFetch client_example) < updateTokenIntervalMin client_example"
    by (simp add: eval_defs)
  have e: "fetchSTSToken client_example (100 * Second) token_failed =
           (fst (fetchSTSToken client_example (100 * Second) token_failed),
            fst (snd (fetchSTSToken client_example (100 * Second) token_failed)),
            snd (snd (fetchSTSToken client_example (100 * Second) token_failed)))"
    by simp
  have o: "100 * Second \<le> 103 * Second"
    by (simp add: Second_def)
  have d: "103 * Second - 100 * Second < updateTokenIntervalMin client_example"
    by (simp add: client_example_def Second_def)
  show ?thesis
    using second_fetch_debounced [OF h e o d, of "token_ok (4000 * Second)"] h o d
    by simp
qed

text \<open>
  With a window of ten seconds and the last performed fetch at 100 seconds, a call at 105
  seconds is skipped, and the call at 112 seconds, seven seconds after it, is performed:
  it calls \<open>tokenUpdateFunc\<close>, pushes the credential and writes \<open>lastFetch\<close> and
  \<open>nextExpire\<close>.
\<close>

theorem second_fetch_after_skip_counterexample:
  "fst (fetchSTSToken (client_example\<lparr>lastFetch := 100 * Second\<rparr>) (105 * Second) token_failed)
     = Some errSTSFetchHighFrequency \<and>
   112 * Second - 105 * Second < updateTokenIntervalMin client_example \<and>
   fetchSTSToken
     (fst (snd (fetchSTSToken (client_example\<lparr>lastFetch := 100 * Second\<rparr>) (105 * Second)
                  token_failed)))
     (112 * Second) (token_ok (4000 * Second)) =
   (None,
    client_example\<lparr>lastFetch := 112 * Second, nextExpire := 4000 * Second\<rparr>,
    [TokenUpdateCall, ResetAccessKeyToken ''id'' ''secret'' ''token''])"
  by (simp add: eval_defs)

section \<open>The decorated operation\<close>

lemma CreateProject_loop_exit:
  "\<not> i < maxTryTimes c \<Longrightarrow>
   CreateProject_loop isTokenError logClient_CreateProject env name description c i prj err =
     (prj, err, c, [])"
  by (subst CreateProject_loop.simps) simp

lemma CreateProject_loop_iter:
  "i < maxTryTimes c \<Longrightarrow>
   CreateProject_loop isTokenError logClient_CreateProject env name description c i prj err =
     (case logClient_CreateProject (nat i) name description of (prj', err') \<Rightarrow>
        (case processError isTokenError c (fst (env (nat i))) (snd (env (nat i))) err' of
           (retry, c', tr) \<Rightarrow>
             if \<not> retry then (prj', err', c', OpCall # tr)
             else
               (case CreateProject_loop isTokenError logClient_CreateProject env
                       name description c' (i + 1) prj' err' of
                  (p, e, cf, tr') \<Rightarrow> (p, e, cf, OpCall # tr @ tr'))))"
  by (subst CreateProject_loop.simps) simp

lemma processError_other:
  "\<not> isTokenError e \<Longrightarrow> processError isTokenError c nowTime tok (Some e) = (False, c, [])"
  by (simp add: processError_def)

lemma processError_nil:
  "processError isTokenError c nowTime tok None = (False, c, [])"
  by (simp add: processError_def)

lemma processError_token:
  "isTokenError e \<Longrightarrow> fetchSTSToken c nowTime tok = (fetchErr, c', tr) \<Longrightarrow>
   processError isTokenError c nowTime tok (Some e) = (fetchErr = None, c', FetchCall # tr)"
  by (simp add: processError_def)

lemma fetchSTSToken_trace:
  "fetchSTSToken c nowTime tok = (r, c', tr) \<Longrightarrow> OpCall \<notin> set tr \<and> FetchCall \<notin> set tr"
  by (cases "fetch_prepare c nowTime")
     (auto simp: fetchSTSToken_def Let_def split: prod.splits option.splits if_splits)

lemma fetchSTSToken_maxTryTimes:
  "fetchSTSToken c nowTime tok = (r, c', tr) \<Longrightarrow> maxTryTimes c' = maxTryTimes c"
  by (cases "Sub nowTime (lastFetch c) < updateTokenIntervalMin c")
     (auto simp: fetchSTSToken_def fetch_prepare_skip fetch_prepare_pass Let_def
           split: prod.splits option.splits if_splits)

lemma PublishAlertEvent_loop_exit:
  "\<not> i < maxTryTimes c \<Longrightarrow>
   PublishAlertEvent_loop logClient_PublishAlertEvent project alertResult c i err = (err, [])"
  by (subst PublishAlertEvent_loop.simps) simp

lemma PublishAlertEvent_loop_iter:
  "i < maxTryTimes c \<Longrightarrow>
   PublishAlertEvent_loop logClient_PublishAlertEvent project alertResult c i err =
     (case logClient_PublishAlertEvent (nat i) project alertResult of
        None \<Rightarrow> (None, [OpCall])
      | Some e \<Rightarrow>
          (case PublishAlertEvent_loop logClient_PublishAlertEvent project alertResult
                  c (i + 1) (Some e) of
             (r, tr) \<Rightarrow> (r, OpCall # tr)))"
  by (subst PublishAlertEvent_loop.simps) simp

text \<open>
  C10. If \<open>maxTryTimes\<close> is 0 or negative, a decorated operation does not invoke the
  underlying operation (the trace is empty) and returns the zero values of its results
  with a nil error: the nil project and the nil error for \<open>CreateProject\<close>, whose client
  is unchanged, and the nil error for \<open>PublishAlertEvent\<close>.
\<close>

theorem decorated_no_tries:
  "maxTryTimes c \<le> 0 \<Longrightarrow>
   CreateProject isTokenError logClient_CreateProject env c name description = (None, None, c, []) \<and>
   PublishAlertEvent logClient_PublishAlertEvent c project alertResult = (None, [])"
  by (simp add: CreateProject_def CreateProject_loop_exit
                PublishAlertEvent_def PublishAlertEvent_loop_exit)

theorem decorated_no_tries_witness:
  "maxTryTimes (client_example\<lparr>maxTryTimes := 0\<rparr>) \<le> 0 \<and>
   CreateProject isAuthError op_two_auth_errors env_spaced
     (client_example\<lparr>maxTryTimes := 0\<rparr>) ''p'' ''d'' =
   (None, None, client_example\<lparr>maxTryTimes := 0\<rparr>, []) \<and>
   PublishAlertEvent alert_not_found (client_example\<lparr>maxTryTimes := 0\<rparr>) ''p'' ''a'' = (None, [])"
proof -
  have h: "maxTryTimes (client_example\<lparr>maxTryTimes := 0\<rparr>) \<le> 0"
    by simp
  show ?thesis
    using decorated_no_tries [OF h, of isAuthError op_two_auth_errors env_spaced "''p''" "''d''"
            alert_not_found "''p''" "''a''"] h
    by simp
qed

text \<open>
  The loop of \<open>CreateProject\<close>, which 192 of the decorated operations have, returns at
  once, after one invocation and without a fetch, when the underlying operation returns
  an error that \<open>IsTokenError\<close> does not accept.
\<close>

lemma CreateProject_loop_other_error:
  assumes "i < maxTryTimes c"
    and "logClient_CreateProject (nat i) name description = (prj, Some e)"
    and "\<not> isTokenError e"
  shows "CreateProject_loop isTokenError logClient_CreateProject env name description c i prj0 err0 =
         (prj, Some e, c, [OpCall])"
  using assms
  by (simp add: CreateProject_loop_iter processError_other)

text \<open>
  C6 says that every decorated operation returns at once, after one invocation of the
  underlying operation, when that operation returns an error that is not a token error.
  \<open>PublishAlertEvent\<close> does not: with \<open>maxTryTimes = 3\<close> and an underlying operation that
  returns the error \<open>ProjectNotExist\<close>, which is not a token error, at every invocation,
  it invokes the underlying operation three times before it returns the error.
\<close>

theorem PublishAlertEvent_retries_other_error:
  "maxTryTimes client_example = 3 \<and>
   \<not> isAuthError (Error ''ProjectNotExist'') \<and>
   PublishAlertEvent alert_not_found client_example ''project'' ''alert'' =
     (Some (Error ''ProjectNotExist''), [OpCall, OpCall, OpCall])"
proof -
  have m: "maxTryTimes client_example = 3"
    by (simp add: client_example_def)
  have l3: "PublishAlertEvent_loop alert_not_found ''project'' ''alert'' client_example 3
              (Some (Error ''ProjectNotExist'')) = (Some (Error ''ProjectNotExist''), [])"
    using m by (simp add: PublishAlertEvent_loop_exit)
  have l2: "PublishAlertEvent_loop alert_not_found ''project'' ''alert'' client_example 2
              (Some (Error ''ProjectNotExist'')) = (Some (Error ''ProjectNotExist''), [OpCall])"
    using m l3 by (simp add: PublishAlertEvent_loop_iter alert_not_found_def)
  have l1: "PublishAlertEvent_loop alert_not_found ''project'' ''alert'' client_example 1
              (Some (Error ''ProjectNotExist'')) =
            (Some (Error ''ProjectNotExist''), [OpCall, OpCall])"
    using m l2 by (simp add: PublishAlertEvent_loop_iter alert_not_found_def)
  have l0: "PublishAlertEvent alert_not_found client_example ''project'' ''alert'' =
            (Some (Error ''ProjectNotExist''), [OpCall, OpCall, OpCall])"
    using m l1 by (simp add: PublishAlertEvent_def PublishAlertEvent_loop_iter alert_not_found_def)
  from m l0 show ?thesis
    by (simp add: isAuthError_def)
qed

text \<open>
  C5. In any iteration of the loop of \<open>CreateProject\<close>, if the underlying operation returns
  a token error and the fetch that \<open>processError\<close> makes returns an error (the error of
  \<open>tokenUpdateFunc\<close> or \<open>errSTSFetchHighFrequency\<close>), the loop stops there: it returns the
  result and the error of the operation, not the error of the fetch, and invokes the
  operation no further. When that happens in the first iteration, \<open>CreateProject\<close> has
  invoked the underlying operation exactly once.
\<close>

theorem CreateProject_fetch_fails:
  assumes "i < maxTryTimes c"
    and "logClient_CreateProject (nat i) name description = (prj, Some e)"
    and "isTokenError e"
    and "fetchSTSToken c (fst (env (nat i))) (snd (env (nat i))) = (Some fetchErr, c', tr)"
  shows "CreateProject_loop isTokenError logClient_CreateProject env name description c i prj0 err0 =
           (prj, Some e, c', OpCall # FetchCall # tr) \<and>
         count_list (OpCall # FetchCall # tr) OpCall = 1 \<and>
         (i = 0 \<longrightarrow>
            CreateProject isTokenError logClient_CreateProject env c name description =
              (prj, Some e, c', OpCall # FetchCall # tr))"
proof -
  from assms(4) have "OpCall \<notin> set tr"
    by (simp add: fetchSTSToken_trace)
  then have "count_list tr OpCall = 0"
    by (simp add: count_list_0_iff)
  moreover
  have loop: "CreateProject_loop isTokenError logClient_CreateProject env name description
                c i prj0 err0 = (prj, Some e, c', OpCall # FetchCall # tr)" for prj0 err0
    using assms by (simp add: CreateProject_loop_iter processError_token)
  ultimately show ?thesis
    by (auto simp: CreateProject_def)
qed

text \<open>
  C7. With \<open>maxTryTimes = 3\<close>, if the underlying operation returns a token error at its
  first and second invocation and succeeds at the third, and both fetches succeed,
  \<open>CreateProject\<close> returns the result of the third invocation with a nil error; the
  operation has been invoked exactly 3 times and \<open>fetchSTSToken\<close> exactly 2 times.
\<close>

theorem CreateProject_third_try:
  assumes "maxTryTimes c = 3"
    and "logClient_CreateProject 0 name description = (prj0, Some e0)" and "isTokenError e0"
    and "logClient_CreateProject 1 name description = (prj1, Some e1)" and "isTokenError e1"
    and "logClient_CreateProject 2 name description = (prj2, None)"
    and "fetchSTSToken c (fst (env 0)) (snd (env 0)) = (None, c1, tr1)"
    and "fetchSTSToken c1 (fst (env 1)) (snd (env 1)) = (None, c2, tr2)"
  shows "CreateProject isTokenError logClient_CreateProject env c name description =
           (prj2, None, c2, OpCall # FetchCall # tr1 @ OpCall # FetchCall # tr2 @ [OpCall]) \<and>
         count_list (OpCall # FetchCall # tr1 @ OpCall # FetchCall # tr2 @ [OpCall]) OpCall = 3 \<and>
         count_list (OpCall # FetchCall # tr1 @ OpCall # FetchCall # tr2 @ [OpCall]) FetchCall = 2"
proof -
  have m1: "maxTryTimes c1 = 3" and m2: "maxTryTimes c2 = 3"
    using assms(1,7,8) by (simp_all add: fetchSTSToken_maxTryTimes)
  have third: "CreateProject_loop isTokenError logClient_CreateProject env name description
                 c2 2 prj1 (Some e1) = (prj2, None, c2, [OpCall])"
    using m2 assms(6) by (simp add: CreateProject_loop_iter processError_nil)
  have second: "CreateProject_loop isTokenError logClient_CreateProject env name description
                  c1 1 prj0 (Some e0) = (prj2, None, c2, OpCall # FetchCall # tr2 @ [OpCall])"
    using m1 assms(4,5,8) third
    by (simp add: CreateProject_loop_iter processError_token)
  have first: "CreateProject isTokenError logClient_CreateProject env c name description =
                 (prj2, None, c2, OpCall # FetchCall # tr1 @ OpCall # FetchCall # tr2 @ [OpCall])"
    using assms(1,2,3,7) second
    by (simp add: CreateProject_def CreateProject_loop_iter processError_token)
  have "count_list tr1 OpCall = 0" "count_list tr1 FetchCall = 0"
       "count_list tr2 OpCall = 0" "count_list tr2 FetchCall = 0"
    using fetchSTSToken_trace [OF assms(7)] fetchSTSToken_trace [OF assms(8)]
    by (simp_all add: count_list_0_iff)
  with first show ?thesis
    by simp
qed

theorem CreateProject_fetch_fails_witness:
  "CreateProject isAuthError op_always_auth_error env_hurried client_example ''p'' ''d'' =
     (None, Some (Error ''Unauthorized''), client_example, [OpCall, FetchCall]) \<and>
   CreateProject isAuthError op_always_auth_error env_failing client_example ''p'' ''d'' =
     (None, Some (Error ''Unauthorized''),
      client_example\<lparr>lastFetch := 100 * Second, lastRetryFailCount := 1\<rparr>,
      [OpCall, FetchCall, TokenUpdateCall])"
proof -
  have h1: "0 < maxTryTimes client_example"
    by (simp add: client_example_def)
  have h2: "op_always_auth_error (nat 0) ''p'' ''d'' = (None, Some (Error ''Unauthorized''))"
    by (simp add: op_always_auth_error_def)
  have h3: "isAuthError (Error ''Unauthorized'')"
    by (simp add: isAuthError_def)
  have skipped: "fetchSTSToken client_example (fst (env_hurried (nat 0))) (snd (env_hurried (nat 0))) =
                 (Some errSTSFetchHighFrequency, client_example, [])"
    by (simp add: eval_defs)
  have failed: "fetchSTSToken client_example (fst (env_failing (nat 0))) (snd (env_failing (nat 0))) =
                (Some (Error ''sts unavailable''),
                 client_example\<lparr>lastFetch := 100 * Second, lastRetryFailCount := 1\<rparr>,
                 [TokenUpdateCall])"
    by (simp add: eval_defs)
  show ?thesis
    using CreateProject_fetch_fails [where isTokenError = isAuthError
        and logClient_CreateProject = op_always_auth_error and env = env_hurried,
        OF h1 h2 h3 skipped]
      CreateProject_fetch_fails [where isTokenError = isAuthError
        and logClient_CreateProject = op_always_auth_error and env = env_failing,
        OF h1 h2 h3 failed]
    by simp
qed

theorem CreateProject_third_try_witness:
  "maxTryTimes client_example = 3 \<and>
   CreateProject isAuthError op_two_auth_errors env_spaced client_example ''p'' ''d'' =
     (Some ''p'', None,
      client_example\<lparr>lastFetch := 200 * Second, nextExpire := 4000 * Second\<rparr>,
      [OpCall, FetchCall, TokenUpdateCall, ResetAccessKeyToken ''id'' ''secret'' ''token'',
       OpCall, FetchCall, TokenUpdateCall, ResetAccessKeyToken ''id'' ''secret'' ''token'',
       OpCall])"
proof -
  have h1: "maxTryTimes client_example = 3"
    by (simp add: client_example_def)
  have o0: "op_two_auth_errors 0 ''p'' ''d'' = (None, Some (Error ''Unauthorized''))"
    and o1: "op_two_auth_errors 1 ''p'' ''d'' = (None, Some (Error ''Unauthorized''))"
    and o2: "op_two_auth_errors 2 ''p'' ''d'' = (Some ''p'', None)"
    by (simp_all add: op_two_auth_errors_def)
  have a: "isAuthError (Error ''Unauthorized'')"
    by (simp add: isAuthError_def)
  have f0: "fetchSTSToken client_example (fst (env_spaced 0)) (snd (env_spaced 0)) =
            (None, client_example\<lparr>lastFetch := 100 * Second, nextExpire := 4000 * Second\<rparr>,
             [TokenUpdateCall, ResetAccessKeyToken ''id'' ''secret'' ''token''])"
    by (simp add: eval_defs)
  have f1: "fetchSTSToken (client_example\<lparr>lastFetch := 100 * Second, nextExpire := 4000 * Second\<rparr>)
              (fst (env_spaced 1)) (snd (env_spaced 1)) =
            (None, client_example\<lparr>lastFetch := 200 * Second, nextExpire := 4000 * Second\<rparr>,
             [TokenUpdateCall, ResetAccessKeyToken ''id'' ''secret'' ''token''])"
    by (simp add: eval_defs)
  show ?thesis
    using CreateProject_third_try [where isTokenError = isAuthError
        and logClient_CreateProject = op_two_auth_errors and env = env_spaced,
        OF h1 o0 a o1 a o2 f0 f1] h1
    by simp
qed

section \<open>The interval of the scheduler\<close>

lemma mul64_quo:
  assumes "0 \<le> t" and "t \<le> maxDuration" and "0 \<le> k" and "k \<le> 10"
  shows "mul64 (quo t 10) k = k * (t div 10)"
proof -
  have q: "quo t 10 = t div 10"
    using assms(1) by (simp add: quo_def)
  have "0 \<le> t div 10"
    using assms(1) by simp
  moreover have "k * (t div 10) \<le> 10 * (t div 10)"
    using assms(1,4) by (intro mult_right_mono) auto
  moreover have "10 * (t div 10) \<le> t"
    by presburger
  ultimately have "0 \<le> k * (t div 10) \<and> k * (t div 10) < 2 ^ 63"
    using assms(2,3) by (simp add: maxDuration_def)
  then have "wrap64 (k * (t div 10)) = k * (t div 10)"
    by (intro wrap64_id) auto
  with q show ?thesis
    by (simp add: mul64_def mult.commute)
qed

lemma Sub_range: "minDuration \<le> Sub t u \<and> Sub t u \<le> maxDuration"
  by (simp add: Sub_def minDuration_def maxDuration_def)

text \<open>
  C8, amended. With \<open>t = nextExpire - now\<close> (saturated as \<open>Time.Sub\<close> does), the interval
  computed by the scheduler is 30 seconds when \<open>t\<close> is less than a minute; \<open>7 * (t div 10)\<close>
  when \<open>t\<close> is at least a minute and less than ten minutes; \<open>6 * (t div 10)\<close> when \<open>t\<close> is
  at least ten minutes and less than an hour; \<open>5 * (t div 10)\<close> otherwise. That is 70%, 60%
  and 50% of \<open>t\<close> exactly when \<open>t\<close> is a multiple of 10 nanoseconds, and otherwise less
  than 7 nanoseconds below it. A \<open>t\<close> of 5 minutes gives 3.5 minutes and a \<open>t\<close> of 30
  seconds gives 30 seconds.
\<close>

theorem flush_sleepTime_tiers:
  "(Sub (nextExpire c) nowTime < Minute \<longrightarrow> flush_sleepTime c nowTime = 30 * Second) \<and>
   (Minute \<le> Sub (nextExpire c) nowTime \<and> Sub (nextExpire c) nowTime < 10 * Minute \<longrightarrow>
      flush_sleepTime c nowTime = 7 * (Sub (nextExpire c) nowTime div 10)) \<and>
   (10 * Minute \<le> Sub (nextExpire c) nowTime \<and> Sub (nextExpire c) nowTime < Hour \<longrightarrow>
      flush_sleepTime c nowTime = 6 * (Sub (nextExpire c) nowTime div 10)) \<and>
   (Hour \<le> Sub (nextExpire c) nowTime \<longrightarrow>
      flush_sleepTime c nowTime = 5 * (Sub (nextExpire c) nowTime div 10)) \<and>
   (Minute \<le> Sub (nextExpire c) nowTime \<and> Sub (nextExpire c) nowTime < 10 * Minute \<and>
    10 dvd Sub (nextExpire c) nowTime \<longrightarrow>
      10 * flush_sleepTime c nowTime = 7 * Sub (nextExpire c) nowTime) \<and>
   (10 * Minute \<le> Sub (nextExpire c) nowTime \<and> Sub (nextExpire c) nowTime < Hour \<and>
    10 dvd Sub (nextExpire c) nowTime \<longrightarrow>
      10 * flush_sleepTime c nowTime = 6 * Sub (nextExpire c) nowTime) \<and>
   (Hour \<le> Sub (nextExpire c) nowTime \<and> 10 dvd Sub (nextExpire c) nowTime \<longrightarrow>
      10 * flush_sleepTime c nowTime = 5 * Sub (nextExpire c) nowTime) \<and>
   (Minute \<le> Sub (nextExpire c) nowTime \<and> Sub (nextExpire c) nowTime < 10 * Minute \<longrightarrow>
      7 * Sub (nextExpire c) nowTime - 63 \<le> 10 * flush_sleepTime c nowTime \<and>
      10 * flush_sleepTime c nowTime \<le> 7 * Sub (nextExpire c) nowTime) \<and>
   (10 * Minute \<le> Sub (nextExpire c) nowTime \<and> Sub (nextExpire c) nowTime < Hour \<longrightarrow>
      6 * Sub (nextExpire c) nowTime - 54 \<le> 10 * flush_sleepTime c nowTime \<and>
      10 * flush_sleepTime c nowTime \<le> 6 * Sub (nextExpire c) nowTime) \<and>
   (Hour \<le> Sub (nextExpire c) nowTime \<longrightarrow>
      5 * Sub (nextExpire c) nowTime - 45 \<le> 10 * flush_sleepTime c nowTime \<and>
      10 * flush_sleepTime c nowTime \<le> 5 * Sub (nextExpire c) nowTime) \<and>
   (Sub (nextExpire c) nowTime = 5 * Minute \<longrightarrow> flush_sleepTime c nowTime = 210 * Second) \<and>
   (Sub (nextExpire c) nowTime = 30 * Second \<longrightarrow> flush_sleepTime c nowTime = 30 * Second)"
proof -
  define t where "t = Sub (nextExpire c) nowTime"
  have r: "t \<le> maxDuration"
    using Sub_range [of "nextExpire c" nowTime] by (simp add: t_def)
  have m: "Minute \<le> t \<Longrightarrow> mul64 (quo t 10) k = k * (t div 10)" if "0 \<le> k" "k \<le> 10" for k
    using that r by (intro mul64_quo) (auto simp: Minute_def Second_def)
  have f: "flush_sleepTime c nowTime =
           (if t < Minute then 30 * Second
            else if t < 10 * Minute then 7 * (t div 10)
            else if t < Hour then 6 * (t div 10)
            else 5 * (t div 10))"
    using m [of 7] m [of 6] m [of 5]
    by (simp add: flush_sleepTime_def Let_def t_def [symmetric])
  have d: "10 dvd t \<Longrightarrow> 10 * (k * (t div 10)) = k * t" for k
    by auto
  have lt: "Minute < 10 * Minute" "10 * Minute < Hour" "30 * Second < Minute"
    by (simp_all add: Hour_def Minute_def Second_def)
  have b: "k * t - 9 * k \<le> 10 * (k * (t div 10)) \<and> 10 * (k * (t div 10)) \<le> k * t" if "0 \<le> k" for k
  proof -
    have "t - 9 \<le> 10 * (t div 10) \<and> 10 * (t div 10) \<le> t"
      by presburger
    then have "k * (t - 9) \<le> k * (10 * (t div 10)) \<and> k * (10 * (t div 10)) \<le> k * t"
      using that by (simp add: mult_left_mono)
    then show ?thesis
      by (simp add: algebra_simps)
  qed
  show ?thesis
    unfolding t_def [symmetric] f
    using lt d [of 7] d [of 6] d [of 5] b [of 7] b [of 6] b [of 5]
    by (auto simp: Hour_def Minute_def Second_def)
qed

theorem flush_sleepTime_tiers_witness:
  "Sub (nextExpire (client_example\<lparr>nextExpire := 400 * Second\<rparr>)) (100 * Second) = 5 * Minute \<and>
   flush_sleepTime (client_example\<lparr>nextExpire := 400 * Second\<rparr>) (100 * Second) = 210 * Second \<and>
   Sub (nextExpire (client_example\<lparr>nextExpire := 130 * Second\<rparr>)) (100 * Second) = 30 * Second \<and>
   flush_sleepTime (client_example\<lparr>nextExpire := 130 * Second\<rparr>) (100 * Second) = 30 * Second \<and>
   Sub (nextExpire (client_example\<lparr>nextExpire := 1900 * Second\<rparr>)) (100 * Second) = 30 * Minute \<and>
   flush_sleepTime (client_example\<lparr>nextExpire := 1900 * Second\<rparr>) (100 * Second) = 18 * Minute \<and>
   Sub (nextExpire (client_example\<lparr>nextExpire := 7300 * Second\<rparr>)) (100 * Second) = 2 * Hour \<and>
   flush_sleepTime (client_example\<lparr>nextExpire := 7300 * Second\<rparr>) (100 * Second) = Hour"
proof -
  have s: "Sub (nextExpire (client_example\<lparr>nextExpire := 400 * Second\<rparr>)) (100 * Second) = 5 * Minute"
    "Sub (nextExpire (client_example\<lparr>nextExpire := 130 * Second\<rparr>)) (100 * Second) = 30 * Second"
    "Sub (nextExpire (client_example\<lparr>nextExpire := 1900 * Second\<rparr>)) (100 * Second) = 30 * Minute"
    "Sub (nextExpire (client_example\<lparr>nextExpire := 7300 * Second\<rparr>)) (100 * Second) = 2 * Hour"
    by (simp_all add: eval_defs)
  show ?thesis
    using flush_sleepTime_tiers [of "client_example\<lparr>nextExpire := 400 * Second\<rparr>" "100 * Second"]
      flush_sleepTime_tiers [of "client_example\<lparr>nextExpire := 130 * Second\<rparr>" "100 * Second"]
      flush_sleepTime_tiers [of "client_example\<lparr>nextExpire := 1900 * Second\<rparr>" "100 * Second"]
      flush_sleepTime_tiers [of "client_example\<lparr>nextExpire := 7300 * Second\<rparr>" "100 * Second"]
    unfolding s
    by (simp add: Hour_def Minute_def Second_def)
qed

text \<open>
  At one minute and five nanoseconds the interval is 42000000000 nanoseconds; 70% of
  the time to expiry is 42000000003.5 nanoseconds.
\<close>

theorem flush_sleepTime_not_70_percent_counterexample:
  "Minute \<le> Sub (nextExpire (client_example\<lparr>nextExpire := Minute + 5\<rparr>)) 0 \<and>
   Sub (nextExpire (client_example\<lparr>nextExpire := Minute + 5\<rparr>)) 0 < 10 * Minute \<and>
   10 * flush_sleepTime (client_example\<lparr>nextExpire := Minute + 5\<rparr>) 0
     \<noteq> 7 * Sub (nextExpire (client_example\<lparr>nextExpire := Minute + 5\<rparr>)) 0 \<and>
   flush_sleepTime (client_example\<lparr>nextExpire := Minute + 5\<rparr>) 0
     \<noteq> 7 * Sub (nextExpire (client_example\<lparr>nextExpire := Minute + 5\<rparr>)) 0 div 10"
  by (simp add: flush_sleepTime_def quo_def eval_defs)

section \<open>The loop of the scheduler\<close>

lemma fetchSTSToken_closeFlag:
  "fetchSTSToken c nowTime tok = (r, c', tr) \<Longrightarrow> closeFlag c' = closeFlag c"
  by (cases "Sub nowTime (lastFetch c) < updateTokenIntervalMin c")
     (auto simp: fetchSTSToken_def fetch_prepare_skip fetch_prepare_pass Let_def
           split: prod.splits option.splits if_splits)

lemma flushSTSToken_Shutdown:
  "flushSTSToken c ((nowTime, Shutdown) # rest) = (Returned, c, [After (flush_sleepTime c nowTime)])"
  by simp

lemma flushSTSToken_Trigger:
  "fetchSTSToken c fetchNow tok = (r, c1, tr) \<Longrightarrow>
   flushSTSToken c ((nowTime, Trigger fetchNow tok closed) # rest) =
     (if closeFlag c \<or> closed
      then (Returned, c1\<lparr>closeFlag := True\<rparr>, After (flush_sleepTime c nowTime) # FetchCall # tr)
      else (case flushSTSToken c1 rest of
              (st, cf, tr') \<Rightarrow> (st, cf, After (flush_sleepTime c nowTime) # FetchCall # tr @ tr')))"
  by (frule fetchSTSToken_closeFlag) (auto simp: Close_def Let_def)

lemma flushSTSToken_Returned_iff:
  "fst (flushSTSToken c evs) = Returned \<longleftrightarrow>
   (evs \<noteq> [] \<and> closeFlag c) \<or> (\<exists>e \<in> set evs. stops (snd e))"
proof (induction evs arbitrary: c)
  case Nil
  show ?case by simp
next
  case (Cons ev rest)
  obtain nowTime w where ev: "ev = (nowTime, w)"
    by (cases ev) auto
  show ?case
  proof (cases w)
    case Shutdown
    with ev show ?thesis by simp
  next
    case (Trigger fetchNow tok closed)
    obtain r c1 tr where f: "fetchSTSToken c fetchNow tok = (r, c1, tr)"
      by (cases "fetchSTSToken c fetchNow tok") auto
    have cf: "closeFlag c1 = closeFlag c"
      using f by (rule fetchSTSToken_closeFlag)
    show ?thesis
    proof (cases "closeFlag c \<or> closed")
      case True
      with ev Trigger f show ?thesis
        by (auto simp: flushSTSToken_Trigger simp del: flushSTSToken.simps)
    next
      case False
      with ev Trigger f cf Cons.IH [of c1] show ?thesis
        by (auto simp: flushSTSToken_Trigger split: prod.splits simp del: flushSTSToken.simps)
    qed
  qed
qed

lemma flushSTSToken_append:
  "flushSTSToken c pre = (Running, c1, tr1) \<Longrightarrow>
   flushSTSToken c (pre @ rest) =
     (case flushSTSToken c1 rest of (st, cf, tr2) \<Rightarrow> (st, cf, tr1 @ tr2))"
proof (induction pre arbitrary: c tr1)
  case Nil
  then show ?case by (auto split: prod.splits)
next
  case (Cons ev pre)
  obtain nowTime w where ev: "ev = (nowTime, w)"
    by (cases ev) auto
  show ?case
  proof (cases w)
    case Shutdown
    with ev Cons.prems show ?thesis by simp
  next
    case (Trigger fetchNow tok closed)
    obtain r c' tr where f: "fetchSTSToken c fetchNow tok = (r, c', tr)"
      by (cases "fetchSTSToken c fetchNow tok") auto
    from Cons.prems ev Trigger f have go: "\<not> (closeFlag c \<or> closed)"
      by (auto simp: flushSTSToken_Trigger simp del: flushSTSToken.simps)
    obtain st cf tr' where p: "flushSTSToken c' pre = (st, cf, tr')"
      by (cases "flushSTSToken c' pre") auto
    from Cons.prems ev Trigger f go p
    have "st = Running" and "cf = c1"
      and tr1: "tr1 = After (flush_sleepTime c nowTime) # FetchCall # tr @ tr'"
      by (auto simp: flushSTSToken_Trigger simp del: flushSTSToken.simps)
    with p have "flushSTSToken c' pre = (Running, c1, tr')"
      by simp
    from Cons.IH [OF this] ev Trigger f go tr1 show ?thesis
      by (auto simp: flushSTSToken_Trigger split: prod.splits simp del: flushSTSToken.simps)
  qed
qed

text \<open>
  C9. Run on any list of iterations, \<open>flushSTSToken\<close> has returned exactly when some
  iteration received the shutdown signal, or \<open>Close\<close> was called during some iteration,
  or the close flag was already set and one iteration has been run: what the fetches
  return plays no part. And when the loop is still running after the iterations \<open>pre\<close>
  and the next \<open>select\<close> receives the shutdown signal, the function returns in that
  iteration: the client is as it was, the only event added is the timer of that iteration
  (no fetch, no call of \<open>tokenUpdateFunc\<close>), and no later iteration is run.
\<close>

theorem flushSTSToken_stops:
  "(fst (flushSTSToken c evs) = Returned \<longleftrightarrow>
      (evs \<noteq> [] \<and> closeFlag c) \<or> (\<exists>e \<in> set evs. stops (snd e))) \<and>
   (flushSTSToken c pre = (Running, c1, tr1) \<longrightarrow>
      flushSTSToken c (pre @ (nowTime, Shutdown) # post) =
        (Returned, c1, tr1 @ [After (flush_sleepTime c1 nowTime)]))"
  by (auto simp: flushSTSToken_Returned_iff flushSTSToken_append flushSTSToken_Shutdown
           simp del: flushSTSToken.simps)


theorem flushSTSToken_stops_witness:
  "fst (flushSTSToken client_example two_failed_cycles) = Running \<and>
   \<not> closeFlag client_example \<and> \<not> (\<exists>e \<in> set two_failed_cycles. stops (snd e)) \<and>
   flushSTSToken client_example
     (two_failed_cycles @ (160 * Second, Shutdown) #
        [(160 * Second, Trigger (190 * Second) (token_ok (4000 * Second)) False)]) =
   (Returned,
    client_example\<lparr>lastFetch := 160 * Second, lastRetryFailCount := 2,
                    lastRetryInterval := Second\<rparr>,
    [After (30 * Second), FetchCall, TokenUpdateCall,
     After (30 * Second), FetchCall, Sleep Second, TokenUpdateCall,
     After (30 * Second)])"
proof -
  have run: "flushSTSToken client_example two_failed_cycles =
             (Running,
              client_example\<lparr>lastFetch := 160 * Second, lastRetryFailCount := 2,
                              lastRetryInterval := Second\<rparr>,
              [After (30 * Second), FetchCall, TokenUpdateCall,
               After (30 * Second), FetchCall, Sleep Second, TokenUpdateCall])"
    by (simp add: two_failed_cycles_def flush_sleepTime_def Close_def eval_defs)
  have nc: "\<not> closeFlag client_example"
    by (simp add: client_example_def)
  have ns: "\<not> (\<exists>e \<in> set two_failed_cycles. stops (snd e))"
    by (simp add: two_failed_cycles_def)
  have sl: "flush_sleepTime
              (client_example\<lparr>lastFetch := 160 * Second, lastRetryFailCount := 2,
                              lastRetryInterval := Second\<rparr>) (160 * Second) = 30 * Second"
    by (simp add: flush_sleepTime_def eval_defs)
  show ?thesis
    using flushSTSToken_stops [of client_example two_failed_cycles two_failed_cycles
        "client_example\<lparr>lastFetch := 160 * Second, lastRetryFailCount := 2,
                        lastRetryInterval := Second\<rparr>"
        "[After (30 * Second), FetchCall, TokenUpdateCall,
          After (30 * Second), FetchCall, Sleep Second, TokenUpdateCall]"
        "160 * Second"
        "[(160 * Second, Trigger (190 * Second) (token_ok (4000 * Second)) False)]"]
      run nc ns sl
    by (cases "fst (flushSTSToken client_example two_failed_cycles)") simp_all
qed

end
